theory Spec2Isabelle
  imports Main "HOL-Library.Sublist" "HOL-Library.Char_ord" "HOL-Library.List_Lexorder"
begin

section \<open>Strings\<close>

text \<open>
  A Python string is modelled by the bytes of its UTF-8 encoding, a \<^typ>\<open>string\<close>. The
  methods \<open>str.lower()\<close> and \<open>str.strip()\<close> follow the Unicode character tables of the
  interpreter; they are functions of the world below, about which nothing is assumed.

  \<open>ascii_lower\<close> maps the letters \<open>A\<close>..\<open>Z\<close> (codes 65..90) to \<open>a\<close>..\<open>z\<close> and leaves
  every other byte as it is. It is used where the source matches a pattern of ASCII
  letters with \<open>re.I\<close>, and as the lowering of the concrete inputs, which are ASCII.
\<close>

definition ascii_lower_char :: "char \<Rightarrow> char" where
  "ascii_lower_char c =
     (let n = (of_char c :: nat) in if 65 \<le> n \<and> n \<le> 90 then char_of (n + 32) else c)"

definition ascii_lower :: "string \<Rightarrow> string" where
  "ascii_lower s = map ascii_lower_char s"

text \<open>
  \<open>t in s\<close> on Python strings: \<open>t\<close> occurs in \<open>s\<close> as a contiguous run of characters.
  The search tries every start position of \<open>s\<close> from the left.
\<close>

fun py_in :: "string \<Rightarrow> string \<Rightarrow> bool" where
  "py_in t [] = (t = [])"
| "py_in t (c # cs) = (prefix t (c # cs) \<or> py_in t cs)"

section \<open>Configuration\<close>

text \<open>
  The configuration is the dictionary read by \<open>load_config\<close>. A key that may be absent
  is an optional field: \<open>self.config.get(k, d)\<close> reads it with a default, and
  \<open>self.config[k]\<close> raises \<open>KeyError\<close> when it is absent.
\<close>

record telegram_config =
  tg_enabled :: "bool option"
  tg_bot_token :: "string option"
  tg_chat_id :: "string option"

record email_config =
  em_enabled :: "bool option"
  em_sender_email :: "string option"
  em_recipient_email :: "string option"
  em_smtp_server :: "string option"
  em_smtp_port :: "int option"
  em_sender_password :: "string option"

record discord_config =
  dc_enabled :: "bool option"
  dc_webhook_url :: "string option"

record config =
  search_terms :: "string list option"
  nike_search_url :: "string option"
  user_agent :: "string option"
  telegram :: "telegram_config option"
  email_notifications :: "email_config option"
  discord_webhook :: "discord_config option"

section \<open>Exceptions\<close>

text \<open>
  A computation that may raise returns a value of \<open>py_exception + 'a\<close>: \<open>Inl e\<close> is the
  exception \<open>e\<close> raised, \<open>Inr v\<close> the value \<open>v\<close> returned. Every exception listed here is a
  subclass of Python's \<open>Exception\<close>, so \<open>except Exception\<close> catches each of them.
\<close>

datatype py_exception =
  KeyError | AttributeError | RequestException | ParserError | SMTPException | OSError

type_synonym 'a outcome = "py_exception + 'a"

text \<open>\<open>try: body except Exception as e: handler\<close>.\<close>

definition try_except :: "'a outcome \<Rightarrow> (py_exception \<Rightarrow> 'a outcome) \<Rightarrow> 'a outcome" where
  "try_except body handler = (case body of Inl e \<Rightarrow> handler e | Inr v \<Rightarrow> Inr v)"

section \<open>Pages\<close>

text \<open>
  The HTML library is outside the program. A parsed page is modelled by what the program
  asks of it: the elements that each \<open>find\<close>/\<open>find_all\<close> call ranges over, in document
  order, with the attributes and texts that the program reads from them.
\<close>

record button =
  btn_class :: "string list"  \<comment> \<open>the values of the \<open>class\<close> attribute\<close>
  btn_disabled :: "string option"  \<comment> \<open>\<open>btn.get('disabled')\<close>\<close>
  btn_string :: "string option"  \<comment> \<open>\<open>btn.string\<close>, which a \<open>text=\<close> filter is matched on\<close>
  btn_text :: string  \<comment> \<open>\<open>btn.get_text(strip=True)\<close>\<close>

record card =
  card_tag :: string  \<comment> \<open>\<open>card.name\<close>\<close>
  card_href :: "string option"  \<comment> \<open>the card's own \<open>href\<close> attribute\<close>
  card_title :: "string option"
    \<comment> \<open>\<open>get_text(strip=True)\<close> of the first \<open>h3\<close>/\<open>h4\<close>/\<open>span\<close> with a title class\<close>
  card_text_node :: "string option"
    \<comment> \<open>the first text node matching \<open>Air Force|AF1\<close>\<close>
  card_find_a :: "string option option"
    \<comment> \<open>\<open>card.find('a')\<close>: the first descendant link, with its \<open>href\<close> attribute\<close>
  card_price :: "string option"
    \<comment> \<open>\<open>get_text(strip=True)\<close> of the first element with a price class\<close>

record soup =
  product_card_divs :: "card outcome list"
    \<comment> \<open>\<open>find_all('div', class_=re.compile(r'product-card'))\<close>; \<open>Inl\<close> marks a card
        whose inspection raises\<close>
  t_anchors :: "card outcome list"
    \<comment> \<open>\<open>find_all('a', href=re.compile(r'/t/'))\<close>\<close>
  price_elem :: "string option"
    \<comment> \<open>\<open>get_text(strip=True)\<close> of the first element with class \<open>product-price|current-price\<close>\<close>
  buttons :: "button list"  \<comment> \<open>the \<open>button\<close> elements in document order\<close>

record response =
  status_code :: int
  content :: "soup outcome"
    \<comment> \<open>\<open>BeautifulSoup(response.content, 'html.parser')\<close>; \<open>Inl\<close> when parsing raises\<close>

text \<open>
  The world outside the program: \<open>requests.get(url, headers, timeout=15)\<close> either raises
  or returns a response; \<open>urljoin\<close>, the price regular expression
  (\<open>re.search(r'[$...][\d,]+(?:\.\d{2})?', s)\<close>, then \<open>group(0)\<close>), \<open>str.lower()\<close> and
  \<open>str.strip()\<close> are functions of the interpreter and its libraries.
\<close>

record world =
  http_get :: "string \<Rightarrow> string \<Rightarrow> response outcome"  \<comment> \<open>URL, then user agent\<close>
  urljoin :: "string \<Rightarrow> string \<Rightarrow> string"
  re_search_price :: "string \<Rightarrow> string option"
  str_lower :: "string \<Rightarrow> string"  \<comment> \<open>\<open>s.lower()\<close>\<close>
  str_strip :: "string \<Rightarrow> string"  \<comment> \<open>\<open>s.strip()\<close>\<close>

section \<open>Detail extractor\<close>

text \<open>
  The detail record is a dictionary with the keys \<open>price\<close>, \<open>sizes\<close> and \<open>in_stock\<close>, each
  of which may be absent; \<open>{}\<close> has none of them.
\<close>

record details =
  d_price :: "string option"
  d_sizes :: "string list option"
  d_in_stock :: "bool option"

definition empty_details :: details where
  "empty_details = \<lparr>d_price = None, d_sizes = None, d_in_stock = None\<rparr>"

text \<open>
  \<open>not btn.get('disabled')\<close>: the value is falsy when the attribute is absent (\<open>None\<close>) and
  when it is the empty string.
\<close>

definition attr_truthy :: "string option \<Rightarrow> bool" where
  "attr_truthy a = (case a of None \<Rightarrow> False | Some v \<Rightarrow> v \<noteq> [])"

text \<open>\<open>re.compile(r'size|btn-size')\<close> searched in a class value.\<close>

definition size_class :: "string \<Rightarrow> bool" where
  "size_class c = (py_in ''size'' c \<or> py_in ''btn-size'' c)"

definition find_all_size_buttons :: "soup \<Rightarrow> button list" where
  "find_all_size_buttons sp = filter (\<lambda>b. list_ex size_class (btn_class b)) (buttons sp)"

text \<open>
  \<open>re.compile(r'Add to Bag|Add to Cart', re.I)\<close> searched in a button's string. The
  letters of the pattern are ASCII and none of them has a case variant outside ASCII, so
  the search is the search for the lowered pattern in the string with its ASCII letters
  lowered.
\<close>

definition add_to_bag_text :: "string \<Rightarrow> bool" where
  "add_to_bag_text s =
     (py_in (ascii_lower ''Add to Bag'') (ascii_lower s)
      \<or> py_in (ascii_lower ''Add to Cart'') (ascii_lower s))"

definition is_add_to_bag :: "button \<Rightarrow> bool" where
  "is_add_to_bag b = (case btn_string b of None \<Rightarrow> False | Some s \<Rightarrow> add_to_bag_text s)"

text \<open>\<open>soup.find('button', text=...)\<close>: the first button that matches, or \<open>None\<close>.\<close>

definition find_add_to_bag :: "soup \<Rightarrow> button option" where
  "find_add_to_bag sp = List.find is_add_to_bag (buttons sp)"

text \<open>The loop of lines 154-156 over the size buttons.\<close>

fun collect_sizes :: "button list \<Rightarrow> string list \<Rightarrow> string list" where
  "collect_sizes [] sizes = sizes"
| "collect_sizes (btn # rest) sizes =
     (if \<not> attr_truthy (btn_disabled btn) \<and> btn_text btn \<noteq> []
      then collect_sizes rest (sizes @ [btn_text btn])
      else collect_sizes rest sizes)"

text \<open>The body of the \<open>try\<close> of \<open>get_product_details\<close> (lines 134-166).\<close>

definition get_product_details_try :: "config \<Rightarrow> world \<Rightarrow> string \<Rightarrow> details outcome" where
  "get_product_details_try cfg w product_url =
     (case user_agent cfg of
        None \<Rightarrow> Inl KeyError
      | Some ua \<Rightarrow>
         (case http_get w product_url ua of
            Inl e \<Rightarrow> Inl e
          | Inr response \<Rightarrow>
             if status_code response \<noteq> 200 then Inr empty_details
             else
              (case content response of
                 Inl e \<Rightarrow> Inl e
               | Inr sp \<Rightarrow>
                  let details = empty_details;
                      details =
                        (case price_elem sp of
                           None \<Rightarrow> details
                         | Some price_text \<Rightarrow>
                            (case re_search_price w price_text of
                               None \<Rightarrow> details
                             | Some price_match \<Rightarrow> details\<lparr>d_price := Some price_match\<rparr>));
                      sizes = collect_sizes (find_all_size_buttons sp) [];
                      details = details\<lparr>d_sizes := Some sizes\<rparr>;
                      details = details\<lparr>d_in_stock := Some (length sizes > 0)\<rparr>;
                      add_to_bag = find_add_to_bag sp;
                      details =
                        (case add_to_bag of
                           None \<Rightarrow> details
                         | Some b \<Rightarrow>
                            if \<not> attr_truthy (btn_disabled b)
                            then details\<lparr>d_in_stock := Some True\<rparr>
                            else details)
                  in Inr details)))"

text \<open>\<open>get_product_details\<close>: any exception of the body gives \<open>{}\<close>.\<close>

definition get_product_details :: "config \<Rightarrow> world \<Rightarrow> string \<Rightarrow> details outcome" where
  "get_product_details cfg w product_url =
     try_except (get_product_details_try cfg w product_url) (\<lambda>e. Inr empty_details)"

section \<open>Match filter\<close>

text \<open>
  \<open>matches_search_terms\<close> (lines 172-185). The name is optional so that a missing name
  (\<open>None\<close>) is an input: \<open>not product_name\<close> holds for \<open>None\<close> and for the empty string.
  The loop over the terms returns \<open>False\<close> at the first term that is not in the lowered
  name and \<open>True\<close> when it runs to the end.
\<close>

fun all_terms_present :: "world \<Rightarrow> string \<Rightarrow> string list \<Rightarrow> bool" where
  "all_terms_present w product_lower [] = True"
| "all_terms_present w product_lower (term # rest) =
     (if \<not> py_in (str_lower w term) product_lower then False
      else all_terms_present w product_lower rest)"

definition matches_search_terms :: "config \<Rightarrow> world \<Rightarrow> string option \<Rightarrow> bool" where
  "matches_search_terms cfg w product_name =
     (case product_name of
        None \<Rightarrow> False
      | Some n \<Rightarrow>
          if n = [] then False
          else all_terms_present w (str_lower w n)
                 (case search_terms cfg of None \<Rightarrow> [] | Some ts \<Rightarrow> ts))"

section \<open>Availability check\<close>

record product =
  name :: string
  price :: string
  link :: string
  sizes :: "string list"
  in_stock :: bool

text \<open>Lines 84-91: the name from the title element, else from the matching text node.\<close>

definition card_product_name :: "world \<Rightarrow> card \<Rightarrow> string" where
  "card_product_name w c =
     (case card_title c of
        None \<Rightarrow> (case card_text_node c of None \<Rightarrow> [] | Some t \<Rightarrow> str_strip w t)
      | Some title \<Rightarrow> title)"

text \<open>Lines 93-97: the link of the card itself when it is an \<open>a\<close> element, else of its
  first descendant link, resolved against the site.\<close>

definition card_product_link :: "world \<Rightarrow> card \<Rightarrow> string" where
  "card_product_link w c =
     (let link_elem = (if card_tag c = ''a'' then Some (card_href c) else card_find_a c)
      in case link_elem of
           None \<Rightarrow> []
         | Some h \<Rightarrow>
             urljoin w ''https://www.nike.com'' (case h of None \<Rightarrow> [] | Some href \<Rightarrow> href))"

text \<open>Lines 99-102.\<close>

definition card_product_price :: "card \<Rightarrow> string" where
  "card_product_price c = (case card_price c of None \<Rightarrow> [] | Some t \<Rightarrow> t)"

text \<open>
  The dictionary of lines 109-115. \<open>a or b\<close> is \<open>a\<close> when \<open>a\<close> is truthy (a non-empty
  string) and \<open>b\<close> otherwise; \<open>d.get(k, v)\<close> is \<open>v\<close> when \<open>k\<close> is absent.
\<close>

definition product_info :: "string \<Rightarrow> string \<Rightarrow> string \<Rightarrow> details \<Rightarrow> product" where
  "product_info product_name product_price product_link detailed_info =
     \<lparr>name = product_name,
      price =
        (if product_price \<noteq> [] then product_price
         else (case d_price detailed_info of None \<Rightarrow> ''N/A'' | Some p \<Rightarrow> p)),
      link = product_link,
      sizes = (case d_sizes detailed_info of None \<Rightarrow> [] | Some s \<Rightarrow> s),
      in_stock = (case d_in_stock detailed_info of None \<Rightarrow> False | Some b \<Rightarrow> b)\<rparr>"

text \<open>
  The body of the \<open>try\<close> inside the loop (lines 79-119), as a function of the product list
  built so far: it returns the list, with the product appended when it is retained.
\<close>

definition card_try ::
  "config \<Rightarrow> world \<Rightarrow> card outcome \<Rightarrow> product list \<Rightarrow> product list outcome" where
  "card_try cfg w card_obs products =
     (case card_obs of
        Inl e \<Rightarrow> Inl e
      | Inr c \<Rightarrow>
          let product_name = card_product_name w c;
              product_link = card_product_link w c;
              product_price = card_product_price c
          in if matches_search_terms cfg w (Some product_name) then
               (case get_product_details cfg w product_link of
                  Inl e \<Rightarrow> Inl e
                | Inr detailed_info \<Rightarrow>
                    let pinfo = product_info product_name product_price product_link detailed_info
                    in if in_stock pinfo \<or> sizes pinfo \<noteq> [] then Inr (products @ [pinfo])
                       else Inr products)
             else Inr products)"

text \<open>The loop of lines 77-123: an exception of a card's body skips the card.\<close>

fun for_cards :: "config \<Rightarrow> world \<Rightarrow> card outcome list \<Rightarrow> product list \<Rightarrow> product list" where
  "for_cards cfg w [] products = products"
| "for_cards cfg w (card_obs # rest) products =
     (case card_try cfg w card_obs products of
        Inl e \<Rightarrow> for_cards cfg w rest products
      | Inr products' \<Rightarrow> for_cards cfg w rest products')"

text \<open>The body of the outer \<open>try\<close> of \<open>check_nike_availability\<close> (lines 61-125).\<close>

definition check_nike_availability_try :: "config \<Rightarrow> world \<Rightarrow> product list outcome" where
  "check_nike_availability_try cfg w =
     (case user_agent cfg of
        None \<Rightarrow> Inl KeyError
      | Some ua \<Rightarrow>
         (case nike_search_url cfg of
            None \<Rightarrow> Inl KeyError
          | Some url \<Rightarrow>
             (case http_get w url ua of
                Inl e \<Rightarrow> Inl e
              | Inr response \<Rightarrow>
                 if status_code response \<noteq> 200 then Inr []
                 else
                  (case content response of
                     Inl e \<Rightarrow> Inl e
                   | Inr sp \<Rightarrow>
                      let product_cards = product_card_divs sp;
                          product_cards =
                            (if product_cards = [] then t_anchors sp else product_cards)
                      in Inr (for_cards cfg w product_cards [])))))"

definition check_nike_availability :: "config \<Rightarrow> world \<Rightarrow> product list outcome" where
  "check_nike_availability cfg w =
     try_except (check_nike_availability_try cfg w) (\<lambda>e. Inr [])"

section \<open>Notification formatter\<close>

text \<open>
  Message texts are sequences of bytes in UTF-8; the symbols outside ASCII are named.
\<close>

definition nl :: string where "nl = [CHR 0x0A]"
definition magnifier :: string where "magnifier = [CHR 0xF0, CHR 0x9F, CHR 0x94, CHR 0x8D]"
definition siren :: string where "siren = [CHR 0xF0, CHR 0x9F, CHR 0x9A, CHR 0xA8]"
definition cart :: string where "cart = [CHR 0xF0, CHR 0x9F, CHR 0x9B, CHR 0x92]"
definition em_dash :: string where "em_dash = [CHR 0xE2, CHR 0x80, CHR 0x94]"

text \<open>\<open>sep.join(xs)\<close>.\<close>

fun join :: "string \<Rightarrow> string list \<Rightarrow> string" where
  "join sep [] = []"
| "join sep [x] = x"
| "join sep (x # y # ys) = x @ sep @ join sep (y # ys)"

text \<open>The message of line 280; \<open>now\<close> is the formatted time of the call.\<close>

definition absence_message :: "string \<Rightarrow> string" where
  "absence_message now =
     magnifier @ '' **Nike Monitor Status**'' @ nl @ nl
     @ ''**Status:** No AF1 City Pack Paris found'' @ nl
     @ ''**Time:** '' @ now @ nl
     @ ''**Next check:** 5 minutes''"

text \<open>
  Lines 282-298 build the message for a non-empty list: a header line, then for each
  product the lines of its block, the last of them empty, all joined by newlines.
\<close>

definition product_lines :: "string \<Rightarrow> product \<Rightarrow> string list" where
  "product_lines now p =
     [''**Product:** '' @ name p,
      ''**Price:** '' @ price p,
      (if sizes p \<noteq> [] then ''**Available Sizes:** '' @ join '', '' (sizes p)
       else ''**Sizes:** Check website''),
      ''**Time:** '' @ now,
      cart @ '' **BUY NOW:** '' @ link p,
      []]"

fun append_products :: "string \<Rightarrow> product list \<Rightarrow> string list \<Rightarrow> string list" where
  "append_products now [] message_lines = message_lines"
| "append_products now (p # rest) message_lines =
     append_products now rest (message_lines @ product_lines now p)"

definition found_message :: "string \<Rightarrow> product list \<Rightarrow> string" where
  "found_message now products =
     join nl
       (append_products now products
          [siren @ '' **NIKE ALERT '' @ em_dash @ '' AF1 City Pack Paris (Patent)**'' @ nl])"

text \<open>
  \<open>format_notification\<close> (lines 277-298). In the source text, the statements of lines
  282-298 stand at the indentation of the \<open>return\<close> of line 280, deeper than the
  \<open>if not products:\<close> of line 279: they belong to the suite of that \<open>if\<close> and follow
  its \<open>return\<close>, so no call reaches them. A call with a non-empty list leaves the \<open>if\<close>
  and the function ends without a \<open>return\<close>: the result is \<open>None\<close>. (The docstring and
  the \<open>if\<close> stand at the column of the \<open>def\<close> itself, which Python reports as an
  indentation error; the model takes the lines up to the next \<open>def\<close> as the body, with
  the nesting that their indentation gives them.)
\<close>

definition format_notification :: "string \<Rightarrow> product list \<Rightarrow> string option" where
  "format_notification now products =
     (if products = [] then Some (absence_message now) else None)"

section \<open>Change detector\<close>

text \<open>
  A snapshot is the value stored for a product; the persisted state maps product
  identifiers to snapshots. The state file is missing, unreadable as JSON, a JSON value
  that is no such mapping, or a stored mapping.
\<close>

record snapshot =
  snap_name :: string
  snap_price :: string
  snap_sizes :: "string list"
  snap_in_stock :: bool

type_synonym notification_state = "string \<rightharpoonup> snapshot"

datatype state_file = Missing | Corrupt | Other_json | Stored notification_state

text \<open>\<open>s.split('/')[-1]\<close>: what follows the last \<open>/\<close> of \<open>s\<close>, or \<open>s\<close> when it has none.\<close>

definition last_segment :: "string \<Rightarrow> string" where
  "last_segment s = rev (takeWhile (\<lambda>c. c \<noteq> CHR ''/'') (rev s))"

definition product_id :: "product \<Rightarrow> string" where
  "product_id p = (if link p \<noteq> [] then last_segment (link p) else name p)"

definition snapshot_of :: "product \<Rightarrow> snapshot" where
  "snapshot_of p =
     \<lparr>snap_name = name p, snap_price = price p, snap_sizes = sort (sizes p),
      snap_in_stock = in_stock p\<rparr>"

text \<open>The loop of lines 313-321.\<close>

fun build_state :: "product list \<Rightarrow> notification_state \<Rightarrow> notification_state" where
  "build_state [] current_state = current_state"
| "build_state (p # rest) current_state =
     build_state rest (current_state(product_id p \<mapsto> snapshot_of p))"

definition current_state_of :: "product list \<Rightarrow> notification_state" where
  "current_state_of products = build_state products Map.empty"

text \<open>
  Lines 305-334: load the previous state, build the current one, compare, save on a
  difference. \<open>can_write\<close> tells whether the state file can be opened for writing; a
  failed write is logged and the result is still \<open>True\<close>.
\<close>

definition load_state :: "state_file \<Rightarrow> state_file" where
  "load_state file = (case file of Missing \<Rightarrow> Stored Map.empty | Corrupt \<Rightarrow> Stored Map.empty | f \<Rightarrow> f)"

definition compare_and_save :: "bool \<Rightarrow> product list \<Rightarrow> state_file \<Rightarrow> bool \<times> state_file" where
  "compare_and_save can_write products file =
     (let last_state = load_state file;
          current_state = current_state_of products
      in if Stored current_state \<noteq> last_state
         then (True, if can_write then Stored current_state else file)
         else (False, file))"

text \<open>
  \<open>should_notify\<close> (lines 300-334). As in \<open>format_notification\<close>, lines 305-334 stand at
  the indentation of the \<open>return True\<close> of line 303, inside the suite of
  \<open>if not products:\<close> and after its \<open>return\<close>: no call reaches them. With a non-empty
  list the function ends without a \<open>return\<close>, its result is \<open>None\<close>, and the state file
  is neither read nor written.
\<close>

definition should_notify :: "product list \<Rightarrow> state_file \<Rightarrow> bool option \<times> state_file" where
  "should_notify products file =
     (if products = [] then (Some True, file) else (None, file))"

text \<open>The truth value that \<open>if\<close> gives to a result: \<open>None\<close> and \<open>False\<close> are falsy.\<close>

definition truthy :: "bool option \<Rightarrow> bool" where
  "truthy r = (case r of None \<Rightarrow> False | Some b \<Rightarrow> b)"

section \<open>Notification channels\<close>

text \<open>
  What the channels do to the outside is recorded as a trace of effects, in the order
  in which they happen. The network answers each request with a value or an exception.
\<close>

datatype payload =
  Telegram_payload string string  \<comment> \<open>\<open>chat_id\<close>, \<open>text\<close>\<close>
| Discord_payload string  \<comment> \<open>\<open>content\<close>\<close>

datatype effect =
  Http_post string payload  \<comment> \<open>\<open>requests.post(url, json=payload, timeout=10)\<close>\<close>
| Smtp_connect string int  \<comment> \<open>\<open>smtplib.SMTP(server, port)\<close>, then \<open>starttls()\<close>\<close>
| Smtp_login string string  \<comment> \<open>\<open>server.login(user, password)\<close>\<close>
| Smtp_sendmail string string string string
    \<comment> \<open>\<open>server.sendmail(sender, recipient, text)\<close> with subject and body, then \<open>quit()\<close>\<close>

record network =
  http_post :: "string \<Rightarrow> payload \<Rightarrow> int outcome"  \<comment> \<open>the status code of the answer\<close>
  smtp_connect :: "string \<Rightarrow> int \<Rightarrow> unit outcome"
  smtp_login :: "string \<Rightarrow> string \<Rightarrow> unit outcome"
  smtp_sendmail :: "string \<Rightarrow> string \<Rightarrow> string \<Rightarrow> string \<Rightarrow> unit outcome"

text \<open>\<open>not s\<close> for an optional string: \<open>None\<close> and the empty string are falsy.\<close>

definition str_truthy :: "string option \<Rightarrow> bool" where
  "str_truthy s = (case s of None \<Rightarrow> False | Some v \<Rightarrow> v \<noteq> [])"

text \<open>\<open>d.get('enabled', False)\<close>.\<close>

definition enabled_flag :: "bool option \<Rightarrow> bool" where
  "enabled_flag e = (case e of None \<Rightarrow> False | Some b \<Rightarrow> b)"

text \<open>
  The \<open>except Exception\<close> clause of each channel: the exception is logged and the
  result is \<open>False\<close>; the effects that happened before it stay in the trace.
\<close>

definition except_false :: "bool outcome \<times> effect list \<Rightarrow> bool outcome \<times> effect list" where
  "except_false r = (case fst r of Inl e \<Rightarrow> (Inr False, snd r) | Inr b \<Rightarrow> r)"

text \<open>\<open>send_telegram_message\<close>: the body of the \<open>try\<close> (lines 190-217), then the function.\<close>

definition send_telegram_message_try ::
  "config \<Rightarrow> network \<Rightarrow> string \<Rightarrow> effect list \<Rightarrow> bool outcome \<times> effect list" where
  "send_telegram_message_try cfg nw message tr =
     (let telegram_config =
            (case telegram cfg of
               None \<Rightarrow> \<lparr>tg_enabled = None, tg_bot_token = None, tg_chat_id = None\<rparr>
             | Some t \<Rightarrow> t)
      in if \<not> enabled_flag (tg_enabled telegram_config) then (Inr False, tr)
         else
           let bot_token = tg_bot_token telegram_config;
               chat_id = tg_chat_id telegram_config
           in if \<not> str_truthy bot_token \<or> \<not> str_truthy chat_id then (Inr False, tr)
              else
                let url = ''https://api.telegram.org/bot'' @ the bot_token @ ''/sendMessage'';
                    pl = Telegram_payload (the chat_id) message;
                    tr = tr @ [Http_post url pl]
                in (case http_post nw url pl of
                      Inl e \<Rightarrow> (Inl e, tr)
                    | Inr status \<Rightarrow> (Inr (status = 200), tr)))"

definition send_telegram_message ::
  "config \<Rightarrow> network \<Rightarrow> string \<Rightarrow> effect list \<Rightarrow> bool outcome \<times> effect list" where
  "send_telegram_message cfg nw message tr =
     except_false (send_telegram_message_try cfg nw message tr)"

text \<open>
  \<open>send_email_notification\<close> (lines 225-246). \<open>email_config[k]\<close> raises \<open>KeyError\<close> for an
  absent key, at the place where the source reads it: the password is read after the
  connection is made.
\<close>

definition send_email_notification_try ::
  "config \<Rightarrow> network \<Rightarrow> string \<Rightarrow> string \<Rightarrow> effect list \<Rightarrow> bool outcome \<times> effect list" where
  "send_email_notification_try cfg nw subject message tr =
     (case email_notifications cfg of
        None \<Rightarrow> (Inr False, tr)
      | Some email_config \<Rightarrow>
         if \<not> enabled_flag (em_enabled email_config) then (Inr False, tr)
         else
          (case em_sender_email email_config of
             None \<Rightarrow> (Inl KeyError, tr)
           | Some sender \<Rightarrow>
          (case em_recipient_email email_config of
             None \<Rightarrow> (Inl KeyError, tr)
           | Some recipient \<Rightarrow>
          (case em_smtp_server email_config of
             None \<Rightarrow> (Inl KeyError, tr)
           | Some server \<Rightarrow>
          (case em_smtp_port email_config of
             None \<Rightarrow> (Inl KeyError, tr)
           | Some port \<Rightarrow>
             let tr = tr @ [Smtp_connect server port]
             in (case smtp_connect nw server port of
                   Inl e \<Rightarrow> (Inl e, tr)
                 | Inr u \<Rightarrow>
                (case em_sender_password email_config of
                   None \<Rightarrow> (Inl KeyError, tr)
                 | Some password \<Rightarrow>
                   let tr = tr @ [Smtp_login sender password]
                   in (case smtp_login nw sender password of
                         Inl e \<Rightarrow> (Inl e, tr)
                       | Inr u \<Rightarrow>
                         let tr = tr @ [Smtp_sendmail sender recipient subject message]
                         in (case smtp_sendmail nw sender recipient subject message of
                               Inl e \<Rightarrow> (Inl e, tr)
                             | Inr u \<Rightarrow> (Inr True, tr))))))))))"

definition send_email_notification ::
  "config \<Rightarrow> network \<Rightarrow> string \<Rightarrow> string \<Rightarrow> effect list \<Rightarrow> bool outcome \<times> effect list" where
  "send_email_notification cfg nw subject message tr =
     except_false (send_email_notification_try cfg nw subject message tr)"

text \<open>\<open>send_discord_message\<close> (lines 254-271).\<close>

definition send_discord_message_try ::
  "config \<Rightarrow> network \<Rightarrow> string \<Rightarrow> effect list \<Rightarrow> bool outcome \<times> effect list" where
  "send_discord_message_try cfg nw message tr =
     (let discord_config =
            (case discord_webhook cfg of
               None \<Rightarrow> \<lparr>dc_enabled = None, dc_webhook_url = None\<rparr>
             | Some d \<Rightarrow> d)
      in if \<not> enabled_flag (dc_enabled discord_config) then (Inr False, tr)
         else
           let webhook_url = dc_webhook_url discord_config
           in if \<not> str_truthy webhook_url then (Inr False, tr)
              else
                let pl = Discord_payload message;
                    tr = tr @ [Http_post (the webhook_url) pl]
                in (case http_post nw (the webhook_url) pl of
                      Inl e \<Rightarrow> (Inl e, tr)
                    | Inr status \<Rightarrow> (Inr (status = 200 \<or> status = 204), tr)))"

definition send_discord_message ::
  "config \<Rightarrow> network \<Rightarrow> string \<Rightarrow> effect list \<Rightarrow> bool outcome \<times> effect list" where
  "send_discord_message cfg nw message tr =
     except_false (send_discord_message_try cfg nw message tr)"

section \<open>One cycle of the run loop\<close>

text \<open>\<open>s.replace(old, '')\<close>: every occurrence of \<open>old\<close>, found from the left, is removed.\<close>

function remove_all :: "string \<Rightarrow> string \<Rightarrow> string" where
  "remove_all old s =
     (if old = [] \<or> s = [] then s
      else if prefix old s then remove_all old (drop (length old) s)
      else hd s # remove_all old (tl s))"
  by pat_completeness auto
termination
  by (relation "measure (\<lambda>(old, s). length s)") auto

text \<open>The text handed to the email channel (line 360).\<close>

definition email_text :: "string \<Rightarrow> string" where
  "email_text notification_message =
     remove_all cart (remove_all siren (remove_all ''**'' notification_message))"

text \<open>
  Lines 355-362: the three channels in the order of the source. A channel that raised
  would end the sequence there, as the exception would leave the \<open>try\<close> of the loop.
\<close>

definition dispatch ::
  "config \<Rightarrow> network \<Rightarrow> string \<Rightarrow> effect list \<Rightarrow> unit outcome \<times> effect list" where
  "dispatch cfg nw notification_message tr =
     (case send_telegram_message cfg nw notification_message tr of
        (Inl e, tr1) \<Rightarrow> (Inl e, tr1)
      | (Inr r1, tr1) \<Rightarrow>
         (case send_email_notification cfg nw ''Nike AF1 City Pack Paris Available!''
                 (email_text notification_message) tr1 of
            (Inl e, tr2) \<Rightarrow> (Inl e, tr2)
          | (Inr r2, tr2) \<Rightarrow>
             (case send_discord_message cfg nw notification_message tr2 of
                (Inl e, tr3) \<Rightarrow> (Inl e, tr3)
              | (Inr r3, tr3) \<Rightarrow> (Inr (), tr3))))"

text \<open>
  Lines 345-365: one pass of the loop body, from the availability check to the
  notifications, on the state file and the trace.
\<close>

definition run_cycle ::
  "config \<Rightarrow> world \<Rightarrow> network \<Rightarrow> string \<Rightarrow> state_file \<Rightarrow> effect list
     \<Rightarrow> unit outcome \<times> state_file \<times> effect list" where
  "run_cycle cfg w nw now file tr =
     (case check_nike_availability cfg w of
        Inl e \<Rightarrow> (Inl e, file, tr)
      | Inr products \<Rightarrow>
         (case should_notify products file of
            (r, file') \<Rightarrow>
              if truthy r then
                (case format_notification now products of
                   None \<Rightarrow> (Inr (), file', tr)
                 | Some notification_message \<Rightarrow>
                     if notification_message \<noteq> [] then
                       (case dispatch cfg nw notification_message tr of
                          (res, tr') \<Rightarrow> (res, file', tr'))
                     else (Inr (), file', tr))
              else (Inr (), file', tr)))"

section \<open>Notions used in the properties\<close>

text \<open>The size list that \<open>get_product_details\<close> extracts from a page.\<close>

definition extracted_sizes :: "soup \<Rightarrow> string list" where
  "extracted_sizes sp = collect_sizes (find_all_size_buttons sp) []"

text \<open>
  A button is marked disabled when it carries the \<open>disabled\<close> attribute. The source tests
  the value of the attribute for truth (\<open>attr_truthy\<close>): the two agree on every button
  whose attribute, when present, has a non-empty value.
\<close>

definition marked_disabled :: "button \<Rightarrow> bool" where
  "marked_disabled b = (btn_disabled b \<noteq> None)"

definition no_empty_disabled :: "soup \<Rightarrow> bool" where
  "no_empty_disabled sp = list_all (\<lambda>b. btn_disabled b \<noteq> Some []) (buttons sp)"

text \<open>
  The first button whose string matches the purchase pattern exists and is not marked
  disabled.
\<close>

definition first_affordance_enabled :: "soup \<Rightarrow> bool" where
  "first_affordance_enabled sp =
     (case find_add_to_bag sp of None \<Rightarrow> False | Some b \<Rightarrow> \<not> marked_disabled b)"

text \<open>
  The specification's words: some button of the page matches the purchase pattern and is
  not disabled; some size button of the page is enabled.
\<close>

definition enabled_affordance_present :: "soup \<Rightarrow> bool" where
  "enabled_affordance_present sp =
     list_ex (\<lambda>b. is_add_to_bag b \<and> \<not> marked_disabled b) (buttons sp)"

definition enabled_size_button_present :: "soup \<Rightarrow> bool" where
  "enabled_size_button_present sp =
     list_ex (\<lambda>b. \<not> marked_disabled b) (find_all_size_buttons sp)"

section \<open>A concrete configuration\<close>

text \<open>
  The built-in configuration of \<open>load_config\<close> (lines 33-44), with the two environment
  variables of the chat-bot channel as parameters.
\<close>

definition default_config :: "string option \<Rightarrow> string option \<Rightarrow> config" where
  "default_config bot_token chat_id =
     \<lparr>search_terms = Some [''Nike Air Force 1 Low'', ''City Pack Paris'', ''Patent''],
      nike_search_url = Some ''https://www.nike.com/w/air-force-1-aq0113'',
      user_agent = Some ''Mozilla/5.0'',
      telegram = Some \<lparr>tg_enabled = Some True, tg_bot_token = bot_token, tg_chat_id = chat_id\<rparr>,
      email_notifications = None,
      discord_webhook = None\<rparr>"

section \<open>Concrete inputs\<close>

definition size_button :: "string option \<Rightarrow> string \<Rightarrow> button" where
  "size_button dis label =
     \<lparr>btn_class = [''btn'', ''size-option''], btn_disabled = dis, btn_string = Some label,
      btn_text = label\<rparr>"

definition plain_button :: "string option \<Rightarrow> string \<Rightarrow> button" where
  "plain_button dis label =
     \<lparr>btn_class = [''cta''], btn_disabled = dis, btn_string = Some label, btn_text = label\<rparr>"

text \<open>A detail page with the sizes 9 and 10 on offer and size 11 disabled.\<close>

definition detail_soup :: soup where
  "detail_soup =
     \<lparr>product_card_divs = [], t_anchors = [], price_elem = Some ''$150'',
      buttons = [size_button None ''9'', size_button None ''10'',
                 size_button (Some ''disabled'') ''11'']\<rparr>"

text \<open>
  A detail page with one size button, enabled and without text, and two purchase
  buttons, the first disabled (\<open>disabled="disabled"\<close>) and the second enabled.
\<close>

definition two_affordance_soup :: soup where
  "two_affordance_soup =
     \<lparr>product_card_divs = [], t_anchors = [], price_elem = None,
      buttons = [\<lparr>btn_class = [''btn'', ''size-option''], btn_disabled = None,
                  btn_string = None, btn_text = []\<rparr>,
                 plain_button (Some ''disabled'') ''Add to Bag'',
                 plain_button None ''Add to Cart'']\<rparr>"

definition example_card :: card where
  "example_card =
     \<lparr>card_tag = ''div'', card_href = None,
      card_title = Some ''Nike Air Force 1 Low City Pack Paris (Patent)'',
      card_text_node = None, card_find_a = Some (Some ''/t/af1-paris''),
      card_price = None\<rparr>"

text \<open>A matching card whose detail page cannot be fetched.\<close>

definition timeout_card :: card where
  "timeout_card =
     \<lparr>card_tag = ''a'', card_href = Some ''/t/timeout'',
      card_title = Some ''Nike Air Force 1 Low City Pack Paris (Patent)'',
      card_text_node = None, card_find_a = None, card_price = Some ''$160''\<rparr>"

definition listing_soup :: soup where
  "listing_soup =
     \<lparr>product_card_divs = [Inr example_card, Inr timeout_card], t_anchors = [],
      price_elem = None, buttons = []\<rparr>"

definition example_get :: "string \<Rightarrow> string \<Rightarrow> response outcome" where
  "example_get url ua =
     (if url = ''https://www.nike.com/w/air-force-1-aq0113''
      then Inr \<lparr>status_code = 200, content = Inr listing_soup\<rparr>
      else if url = ''https://www.nike.com/t/af1-paris''
      then Inr \<lparr>status_code = 200, content = Inr detail_soup\<rparr>
      else if url = ''https://www.nike.com/t/two''
      then Inr \<lparr>status_code = 200, content = Inr two_affordance_soup\<rparr>
      else if url = ''https://www.nike.com/w/gone''
      then Inr \<lparr>status_code = 404, content = Inl ParserError\<rparr>
      else Inl RequestException)"

definition example_urljoin :: "string \<Rightarrow> string \<Rightarrow> string" where
  "example_urljoin base href = base @ href"

definition example_price_search :: "string \<Rightarrow> string option" where
  "example_price_search s = (if s = [] then None else Some s)"

text \<open>Stripping of the ASCII whitespace characters, for the concrete inputs.\<close>

definition is_space :: "char \<Rightarrow> bool" where
  "is_space c =
     (c = CHR '' '' \<or> c = CHR 0x09 \<or> c = CHR 0x0A \<or> c = CHR 0x0B \<or> c = CHR 0x0C \<or> c = CHR 0x0D)"

definition ascii_strip :: "string \<Rightarrow> string" where
  "ascii_strip s = rev (dropWhile is_space (rev (dropWhile is_space s)))"

definition example_world :: world where
  "example_world =
     \<lparr>http_get = example_get, urljoin = example_urljoin,
      re_search_price = example_price_search, str_lower = ascii_lower,
      str_strip = ascii_strip\<rparr>"

definition example_product :: product where
  "example_product =
     \<lparr>name = ''Nike Air Force 1 Low City Pack Paris (Patent)'', price = ''$150'',
      link = ''https://www.nike.com/t/af1-paris'', sizes = [''9'', ''10''], in_stock = True\<rparr>"

definition example_snapshot :: snapshot where
  "example_snapshot =
     \<lparr>snap_name = ''Nike Air Force 1 Low City Pack Paris (Patent)'', snap_price = ''$150'',
      snap_sizes = [''10'', ''9''], snap_in_stock = True\<rparr>"

text \<open>
  A network on which the webhook answers with status 500 and every other request
  raises, while the mail relay accepts everything; and a configuration with the chat-bot
  channel disabled and the two other channels enabled.
\<close>

definition example_post :: "string \<Rightarrow> payload \<Rightarrow> int outcome" where
  "example_post url pl =
     (if url = ''https://discord.example/hook'' then Inr 500 else Inl RequestException)"

definition example_smtp_connect :: "string \<Rightarrow> int \<Rightarrow> unit outcome" where
  "example_smtp_connect server port = Inr ()"

definition example_smtp_login :: "string \<Rightarrow> string \<Rightarrow> unit outcome" where
  "example_smtp_login user password = Inr ()"

definition example_smtp_sendmail :: "string \<Rightarrow> string \<Rightarrow> string \<Rightarrow> string \<Rightarrow> unit outcome" where
  "example_smtp_sendmail sender recipient subject body = Inr ()"

definition example_network :: network where
  "example_network =
     \<lparr>http_post = example_post, smtp_connect = example_smtp_connect,
      smtp_login = example_smtp_login, smtp_sendmail = example_smtp_sendmail\<rparr>"




section \<open>Properties of the match filter\<close>

lemma py_in_iff: "py_in t s \<longleftrightarrow> (\<exists>ps ss. s = ps @ t @ ss)"
proof (induction s)
  case Nil
  then show ?case by auto
next
  case (Cons c cs)
  show ?case
  proof
    assume "py_in t (c # cs)"
    then consider "prefix t (c # cs)" | "py_in t cs" by auto
    then show "\<exists>ps ss. c # cs = ps @ t @ ss"
    proof cases
      case 1
      then obtain ss where "c # cs = t @ ss" by (auto simp: prefix_def)
      then have "c # cs = [] @ t @ ss" by simp
      then show ?thesis by blast
    next
      case 2
      with Cons.IH obtain ps ss where "cs = ps @ t @ ss" by blast
      then have "c # cs = (c # ps) @ t @ ss" by simp
      then show ?thesis by blast
    qed
  next
    assume "\<exists>ps ss. c # cs = ps @ t @ ss"
    then obtain ps ss where eq: "c # cs = ps @ t @ ss" by blast
    show "py_in t (c # cs)"
    proof (cases ps)
      case Nil
      with eq have "prefix t (c # cs)" by (simp add: prefix_def)
      then show ?thesis by simp
    next
      case (Cons p ps')
      with eq have "cs = ps' @ t @ ss" by simp
      with Cons.IH have "py_in t cs" by blast
      then show ?thesis by simp
    qed
  qed
qed

lemma all_terms_present_iff:
  "all_terms_present w s ts \<longleftrightarrow> (\<forall>t \<in> set ts. py_in (str_lower w t) s)"
  by (induction ts) auto

text \<open>
  Claim C3. With the configured term list \<open>T\<close>, the match filter accepts a name \<open>n\<close>
  exactly when \<open>n\<close> is not empty and every term of \<open>T\<close>, lowered, is a substring of the
  lowered \<open>n\<close>; a missing name and the empty name never match; with no terms every
  non-empty name matches. A configuration without the \<open>search_terms\<close> key behaves as
  the empty term list. The lowering is \<open>str.lower()\<close>, whatever it does to a string.
\<close>

theorem matches_search_terms_spec:
  "(matches_search_terms ((cfg :: config)\<lparr>search_terms := Some T\<rparr>) w (Some n) \<longleftrightarrow>
      n \<noteq> [] \<and> (\<forall>t \<in> set T. \<exists>ps ss. str_lower w n = ps @ str_lower w t @ ss))
   \<and> \<not> matches_search_terms cfg w None
   \<and> \<not> matches_search_terms cfg w (Some [])
   \<and> (n \<noteq> [] \<longrightarrow> matches_search_terms (cfg\<lparr>search_terms := Some []\<rparr>) w (Some n))
   \<and> (n \<noteq> [] \<longrightarrow> matches_search_terms (cfg\<lparr>search_terms := None\<rparr>) w (Some n))"
  by (simp add: matches_search_terms_def all_terms_present_iff py_in_iff)

theorem matches_search_terms_spec_witness:
  "''Nike Air Force 1 Low - City Pack Paris (PATENT)'' \<noteq> []
   \<and> py_in (str_lower example_world ''Nike Air Force 1 Low'')
        (str_lower example_world ''Nike Air Force 1 Low - City Pack Paris (PATENT)'')
   \<and> py_in (str_lower example_world ''City Pack Paris'')
        (str_lower example_world ''Nike Air Force 1 Low - City Pack Paris (PATENT)'')
   \<and> py_in (str_lower example_world ''Patent'')
        (str_lower example_world ''Nike Air Force 1 Low - City Pack Paris (PATENT)'')
   \<and> matches_search_terms
        ((default_config None None)
           \<lparr>search_terms := Some [''Nike Air Force 1 Low'', ''City Pack Paris'', ''Patent'']\<rparr>)
        example_world
        (Some ''Nike Air Force 1 Low - City Pack Paris (PATENT)'')"
proof -
  have h: "py_in (str_lower example_world ''Nike Air Force 1 Low'')
             (str_lower example_world ''Nike Air Force 1 Low - City Pack Paris (PATENT)'')
           \<and> py_in (str_lower example_world ''City Pack Paris'')
               (str_lower example_world ''Nike Air Force 1 Low - City Pack Paris (PATENT)'')
           \<and> py_in (str_lower example_world ''Patent'')
               (str_lower example_world ''Nike Air Force 1 Low - City Pack Paris (PATENT)'')"
    by code_simp
  then have "\<forall>t \<in> set [''Nike Air Force 1 Low'', ''City Pack Paris'', ''Patent''].
         \<exists>ps ss. str_lower example_world ''Nike Air Force 1 Low - City Pack Paris (PATENT)''
                    = ps @ str_lower example_world t @ ss"
    by (simp add: py_in_iff)
  with h matches_search_terms_spec
         [where cfg = "default_config None None" and w = example_world
            and T = "[''Nike Air Force 1 Low'', ''City Pack Paris'', ''Patent'']"
            and n = "''Nike Air Force 1 Low - City Pack Paris (PATENT)''"]
  show ?thesis by simp
qed

section \<open>Properties of the detail extractor\<close>

lemma collect_sizes_eq:
  "collect_sizes bs acc =
     acc @ map btn_text (filter (\<lambda>b. \<not> attr_truthy (btn_disabled b) \<and> btn_text b \<noteq> []) bs)"
  by (induction bs arbitrary: acc) auto

lemma attr_truthy_marked:
  "btn_disabled b \<noteq> Some [] \<Longrightarrow> attr_truthy (btn_disabled b) \<longleftrightarrow> marked_disabled b"
  by (cases "btn_disabled b") (auto simp: attr_truthy_def marked_disabled_def)

lemma find_add_to_bag_mem: "find_add_to_bag sp = Some b \<Longrightarrow> b \<in> set (buttons sp)"
  by (auto simp: find_add_to_bag_def find_Some_iff)

lemma get_product_details_try_ok:
  assumes "user_agent cfg = Some ua" "http_get w url ua = Inr r" "status_code r = 200"
    "content r = Inr sp"
  shows "get_product_details_try cfg w url =
     Inr \<lparr>d_price = (case price_elem sp of None \<Rightarrow> None | Some t \<Rightarrow> re_search_price w t),
          d_sizes = Some (extracted_sizes sp),
          d_in_stock = Some (extracted_sizes sp \<noteq> []
            \<or> (case find_add_to_bag sp of None \<Rightarrow> False
                | Some b \<Rightarrow> \<not> attr_truthy (btn_disabled b)))\<rparr>"
  using assms
  by (auto simp: get_product_details_try_def extracted_sizes_def
      empty_details_def Let_def split: option.splits)

lemma get_product_details_total: "\<exists>d. get_product_details cfg w url = Inr d"
  by (simp add: get_product_details_def try_except_def split: sum.splits)

lemma get_product_details_raise:
  "user_agent cfg = Some ua \<Longrightarrow> http_get w url ua = Inl e \<Longrightarrow>
   get_product_details cfg w url = Inr empty_details"
  by (simp add: get_product_details_def get_product_details_try_def try_except_def)

text \<open>
  Claim C4, as the code has it by design. Take a detail page that is fetched with status
  200 and parsed, and on which no \<open>disabled\<close> attribute is empty. The detail record holds
  the extracted size list, and \<open>in_stock\<close> is true exactly when that list is not empty or
  the first button whose string matches \<open>Add to Bag\<close>/\<open>Add to Cart\<close> (whatever the case of
  the letters) is not disabled. In particular, an empty size list and no matching button
  give \<open>in_stock = False\<close>, and a size button that is not disabled and has a text gives
  \<open>in_stock = True\<close> whatever the purchase buttons are.
\<close>

theorem get_product_details_in_stock:
  assumes "user_agent cfg = Some ua" "http_get w url ua = Inr r" "status_code r = 200"
    "content r = Inr sp" "no_empty_disabled sp"
  shows "\<exists>d. get_product_details cfg w url = Inr d
     \<and> d_sizes d = Some (extracted_sizes sp)
     \<and> d_in_stock d = Some (extracted_sizes sp \<noteq> [] \<or> first_affordance_enabled sp)
     \<and> (extracted_sizes sp = [] \<and> find_add_to_bag sp = None \<longrightarrow> d_in_stock d = Some False)
     \<and> ((\<exists>b \<in> set (find_all_size_buttons sp). \<not> marked_disabled b \<and> btn_text b \<noteq> [])
          \<longrightarrow> d_in_stock d = Some True)"
proof -
  have ne: "\<And>b. b \<in> set (buttons sp) \<Longrightarrow> btn_disabled b \<noteq> Some []"
    using assms(5) by (simp add: no_empty_disabled_def list_all_iff)
  have fa: "(case find_add_to_bag sp of None \<Rightarrow> False
             | Some b \<Rightarrow> \<not> attr_truthy (btn_disabled b)) = first_affordance_enabled sp"
  proof (cases "find_add_to_bag sp")
    case None
    then show ?thesis by (simp add: first_affordance_enabled_def)
  next
    case (Some b)
    then have "btn_disabled b \<noteq> Some []"
      using ne find_add_to_bag_mem by blast
    with Some show ?thesis
      by (simp add: first_affordance_enabled_def attr_truthy_marked)
  qed
  have sz: "extracted_sizes sp \<noteq> []"
    if "\<exists>b \<in> set (find_all_size_buttons sp). \<not> marked_disabled b \<and> btn_text b \<noteq> []"
  proof -
    from that obtain b where b: "b \<in> set (find_all_size_buttons sp)"
      "\<not> marked_disabled b" "btn_text b \<noteq> []"
      by blast
    from b(1) have "b \<in> set (buttons sp)"
      by (simp add: find_all_size_buttons_def)
    then have "btn_disabled b \<noteq> Some []" by (rule ne)
    with b(2) have "\<not> attr_truthy (btn_disabled b)"
      by (simp add: attr_truthy_marked)
    with b(1,3) show ?thesis
      by (auto simp: extracted_sizes_def collect_sizes_eq filter_empty_conv)
  qed
  have d: "get_product_details cfg w url =
     Inr \<lparr>d_price = (case price_elem sp of None \<Rightarrow> None | Some t \<Rightarrow> re_search_price w t),
          d_sizes = Some (extracted_sizes sp),
          d_in_stock = Some (extracted_sizes sp \<noteq> [] \<or> first_affordance_enabled sp)\<rparr>"
    using get_product_details_try_ok [OF assms(1-4)] fa
    by (simp add: get_product_details_def try_except_def)
  show ?thesis
    using d sz by (auto simp: first_affordance_enabled_def)
qed

theorem get_product_details_in_stock_witness:
  "no_empty_disabled detail_soup
   \<and> (\<exists>d. get_product_details (default_config None None) example_world
          ''https://www.nike.com/t/af1-paris'' = Inr d
        \<and> d_sizes d = Some [''9'', ''10''] \<and> d_in_stock d = Some True)"
proof -
  have h1: "user_agent (default_config None None) = Some ''Mozilla/5.0''"
    by (simp add: default_config_def)
  have h2: "http_get example_world ''https://www.nike.com/t/af1-paris'' ''Mozilla/5.0''
              = Inr \<lparr>status_code = 200, content = Inr detail_soup\<rparr>"
    by (simp add: example_world_def example_get_def)
  have h3: "status_code \<lparr>status_code = 200, content = Inr detail_soup\<rparr> = 200"
    by simp
  have h4: "content \<lparr>status_code = 200, content = Inr detail_soup\<rparr> = Inr detail_soup"
    by simp
  have h5: "no_empty_disabled detail_soup"
    by code_simp
  have sz: "extracted_sizes detail_soup = [''9'', ''10'']"
    by code_simp
  from get_product_details_in_stock [OF h1 h2 h3 h4 h5] sz h5 show ?thesis
    by auto
qed

text \<open>
  The claim as the specification states it fails on a page with an enabled size button
  that has no text, a first purchase button that is disabled and a second one that is
  not. An enabled purchase button is present and an enabled size button is present, and
  no \<open>disabled\<close> attribute is empty; the code keeps no size, looks at the first matching
  purchase button only, and reports \<open>in_stock = False\<close>.
\<close>

theorem get_product_details_in_stock_counterexample:
  "\<not> (d_in_stock (projr (get_product_details (default_config None None) example_world
                           ''https://www.nike.com/t/two''))
       = Some (extracted_sizes two_affordance_soup \<noteq> []
               \<or> enabled_affordance_present two_affordance_soup))
   \<and> enabled_size_button_present two_affordance_soup
   \<and> no_empty_disabled two_affordance_soup
   \<and> d_in_stock (projr (get_product_details (default_config None None) example_world
                           ''https://www.nike.com/t/two'')) = Some False"
  by code_simp

section \<open>Properties of the availability check\<close>

lemma for_cards_retained:
  "\<forall>p \<in> set products. in_stock p \<or> sizes p \<noteq> [] \<Longrightarrow>
   \<forall>p \<in> set (for_cards cfg w cards products). in_stock p \<or> sizes p \<noteq> []"
proof (induction cards arbitrary: products)
  case Nil
  then show ?case by simp
next
  case (Cons c cards)
  show ?case
  proof (cases "card_try cfg w c products")
    case (Inl e)
    with Cons show ?thesis by simp
  next
    case (Inr ps')
    then have "\<forall>p \<in> set ps'. in_stock p \<or> sizes p \<noteq> []"
      using Cons.prems
      by (auto simp: card_try_def Let_def split: sum.splits if_splits)
    with Cons.IH Inr show ?thesis by simp
  qed
qed

lemma example_check:
  "check_nike_availability (default_config None None) example_world = Inr [example_product]"
  by code_simp

text \<open>
  Claim C5. Every product in the list that the availability check returns is in stock or
  has a size. A card whose product has \<open>in_stock = False\<close> and no size adds nothing to the
  list, and so does a card whose detail page cannot be fetched.
\<close>

theorem check_nike_availability_retained:
  "(check_nike_availability cfg w = Inr ps \<longrightarrow> (\<forall>p \<in> set ps. in_stock p \<or> sizes p \<noteq> []))
   \<and> (get_product_details cfg w (card_product_link w c) = Inr d
        \<and> \<not> in_stock (product_info (card_product_name w c) (card_product_price c)
                         (card_product_link w c) d)
        \<and> sizes (product_info (card_product_name w c) (card_product_price c)
                         (card_product_link w c) d) = []
       \<longrightarrow> for_cards cfg w (Inr c # rest) products = for_cards cfg w rest products)
   \<and> (user_agent cfg = Some ua \<and> http_get w (card_product_link w c) ua = Inl e
       \<longrightarrow> for_cards cfg w (Inr c # rest) products = for_cards cfg w rest products)"
proof (intro conjI impI)
  assume "check_nike_availability cfg w = Inr ps"
  then have "ps = [] \<or> (\<exists>cards. ps = for_cards cfg w cards [])"
    by (auto simp: check_nike_availability_def check_nike_availability_try_def try_except_def
        Let_def split: sum.splits option.splits if_splits)
  then show "\<forall>p \<in> set ps. in_stock p \<or> sizes p \<noteq> []"
    using for_cards_retained [of "[]" cfg w] by auto
next
  assume "get_product_details cfg w (card_product_link w c) = Inr d
        \<and> \<not> in_stock (product_info (card_product_name w c) (card_product_price c)
                         (card_product_link w c) d)
        \<and> sizes (product_info (card_product_name w c) (card_product_price c)
                         (card_product_link w c) d) = []"
  then have "card_try cfg w (Inr c) products = Inr products"
    by (simp add: card_try_def Let_def)
  then show "for_cards cfg w (Inr c # rest) products = for_cards cfg w rest products"
    by simp
next
  assume "user_agent cfg = Some ua \<and> http_get w (card_product_link w c) ua = Inl e"
  then have "get_product_details cfg w (card_product_link w c) = Inr empty_details"
    by (simp add: get_product_details_raise)
  then have "card_try cfg w (Inr c) products = Inr products"
    by (simp add: card_try_def Let_def product_info_def empty_details_def)
  then show "for_cards cfg w (Inr c # rest) products = for_cards cfg w rest products"
    by simp
qed

theorem check_nike_availability_retained_witness:
  "check_nike_availability (default_config None None) example_world = Inr [example_product]
   \<and> (in_stock example_product \<or> sizes example_product \<noteq> [])
   \<and> http_get example_world (card_product_link example_world timeout_card) ''Mozilla/5.0''
       = Inl RequestException
   \<and> for_cards (default_config None None) example_world [Inr timeout_card] [example_product]
       = [example_product]"
proof -
  have h1: "user_agent (default_config None None) = Some ''Mozilla/5.0''"
    by (simp add: default_config_def)
  have h2: "http_get example_world (card_product_link example_world timeout_card)
              ''Mozilla/5.0'' = Inl RequestException"
    by code_simp
  note t = check_nike_availability_retained
    [where cfg = "default_config None None" and w = example_world
       and ps = "[example_product]" and c = timeout_card and ua = "''Mozilla/5.0''"
       and e = RequestException and rest = "[]" and products = "[example_product]"]
  from t example_check have a: "in_stock example_product \<or> sizes example_product \<noteq> []"
    by simp
  from t h1 h2
  have b: "for_cards (default_config None None) example_world [Inr timeout_card]
             [example_product] = [example_product]"
    by simp
  from example_check a h2 b show ?thesis by simp
qed

text \<open>
  Claim C8. The availability check always returns a list and never raises. It returns
  the empty list when a configuration key is missing, when the request for the listing
  page raises, when the status is not 200, and when parsing the page raises.
\<close>

theorem check_nike_availability_no_data:
  "(\<exists>ps. check_nike_availability cfg w = Inr ps)
   \<and> (user_agent cfg = None \<or> nike_search_url cfg = None
       \<longrightarrow> check_nike_availability cfg w = Inr [])
   \<and> (user_agent cfg = Some ua \<and> nike_search_url cfg = Some url \<and> http_get w url ua = Inl e
       \<longrightarrow> check_nike_availability cfg w = Inr [])
   \<and> (user_agent cfg = Some ua \<and> nike_search_url cfg = Some url \<and> http_get w url ua = Inr r
        \<and> status_code r \<noteq> 200
       \<longrightarrow> check_nike_availability cfg w = Inr [])
   \<and> (user_agent cfg = Some ua \<and> nike_search_url cfg = Some url \<and> http_get w url ua = Inr r
        \<and> content r = Inl e
       \<longrightarrow> check_nike_availability cfg w = Inr [])"
  by (auto simp: check_nike_availability_def check_nike_availability_try_def try_except_def
      split: sum.splits option.splits)

theorem check_nike_availability_no_data_witness:
  "http_get example_world ''https://www.nike.com/w/gone'' ''Mozilla/5.0''
     = Inr \<lparr>status_code = 404, content = Inl ParserError\<rparr>
   \<and> check_nike_availability
        ((default_config None None)\<lparr>nike_search_url := Some ''https://www.nike.com/w/gone''\<rparr>)
        example_world = Inr []
   \<and> http_get example_world ''https://www.nike.com/w/down'' ''Mozilla/5.0''
       = Inl RequestException
   \<and> check_nike_availability
        ((default_config None None)\<lparr>nike_search_url := Some ''https://www.nike.com/w/down''\<rparr>)
        example_world = Inr []"
proof -
  have g: "http_get example_world ''https://www.nike.com/w/gone'' ''Mozilla/5.0''
             = Inr \<lparr>status_code = 404, content = Inl ParserError\<rparr>"
    by code_simp
  have d: "http_get example_world ''https://www.nike.com/w/down'' ''Mozilla/5.0''
             = Inl RequestException"
    by code_simp
  have u: "\<And>x. user_agent ((default_config None None)\<lparr>nike_search_url := x\<rparr>)
             = Some ''Mozilla/5.0''"
    by (simp add: default_config_def)
  from g u
    check_nike_availability_no_data
      [where cfg = "(default_config None None)
                      \<lparr>nike_search_url := Some ''https://www.nike.com/w/gone''\<rparr>"
         and w = example_world and ua = "''Mozilla/5.0''"
         and url = "''https://www.nike.com/w/gone''"
         and r = "\<lparr>status_code = 404, content = Inl ParserError\<rparr>"]
  have a: "check_nike_availability
        ((default_config None None)\<lparr>nike_search_url := Some ''https://www.nike.com/w/gone''\<rparr>)
        example_world = Inr []"
    by simp
  from d u
    check_nike_availability_no_data
      [where cfg = "(default_config None None)
                      \<lparr>nike_search_url := Some ''https://www.nike.com/w/down''\<rparr>"
         and w = example_world and ua = "''Mozilla/5.0''"
         and url = "''https://www.nike.com/w/down''" and e = RequestException]
  have b: "check_nike_availability
        ((default_config None None)\<lparr>nike_search_url := Some ''https://www.nike.com/w/down''\<rparr>)
        example_world = Inr []"
    by simp
  from g a d b show ?thesis by simp
qed

text \<open>
  Claim C10. For a card that matches, the product that is assembled (and appended when
  it is retained) has the price of the listing card when that is not empty; otherwise
  the price of the detail record when it has one; otherwise \<open>N/A\<close>.
\<close>

theorem product_price_precedence:
  assumes "matches_search_terms cfg w (Some (card_product_name w c))"
    and "get_product_details cfg w (card_product_link w c) = Inr d"
  shows "\<exists>p. p = product_info (card_product_name w c) (card_product_price c)
                   (card_product_link w c) d
     \<and> card_try cfg w (Inr c) products =
         Inr (if in_stock p \<or> sizes p \<noteq> [] then products @ [p] else products)
     \<and> (card_product_price c \<noteq> [] \<longrightarrow> price p = card_product_price c)
     \<and> (card_product_price c = [] \<longrightarrow>
          price p = (case d_price d of None \<Rightarrow> ''N/A'' | Some x \<Rightarrow> x))"
  using assms by (simp add: card_try_def Let_def product_info_def)

theorem product_price_precedence_witness:
  "matches_search_terms (default_config None None) example_world
     (Some (card_product_name example_world example_card))
   \<and> card_product_price example_card = []
   \<and> card_try (default_config None None) example_world (Inr example_card) []
       = Inr [example_product]
   \<and> price example_product = ''$150''"
proof -
  have m: "matches_search_terms (default_config None None) example_world
             (Some (card_product_name example_world example_card))"
    by code_simp
  have g: "get_product_details (default_config None None) example_world
             (card_product_link example_world example_card)
           = Inr \<lparr>d_price = Some ''$150'', d_sizes = Some [''9'', ''10''],
                   d_in_stock = Some True\<rparr>"
    by code_simp
  have e: "card_product_price example_card = []"
    by code_simp
  have p: "product_info (card_product_name example_world example_card)
             (card_product_price example_card)
             (card_product_link example_world example_card)
             \<lparr>d_price = Some ''$150'', d_sizes = Some [''9'', ''10''], d_in_stock = Some True\<rparr>
           = example_product"
    by code_simp
  have q: "price example_product = ''$150''"
    by (simp add: example_product_def)
  from product_price_precedence [OF m g, of "[]"] p
  have "card_try (default_config None None) example_world (Inr example_card) []
          = Inr [example_product]"
    by (simp add: example_product_def)
  with m e q show ?thesis by simp
qed

section \<open>Properties of the notification channels\<close>
















section \<open>Properties of the change detector and the formatter\<close>

text \<open>
  What lines 305-334 compute when they are run: on a difference between the current
  and the loaded state the new mapping replaces the file and the result is \<open>True\<close>; on
  equality the file stays and the result is \<open>False\<close>.
\<close>

lemma compare_and_save_changed:
  "Stored (current_state_of products) \<noteq> load_state file \<Longrightarrow>
   compare_and_save True products file = (True, Stored (current_state_of products))"
  by (simp add: compare_and_save_def Let_def)

lemma compare_and_save_unchanged:
  "Stored (current_state_of products) = load_state file \<Longrightarrow>
   compare_and_save can_write products file = (False, file)"
  by (simp add: compare_and_save_def Let_def)

text \<open>
  Claim C1 at a concrete input: one product, no state file. The claim asks for the
  result \<open>True\<close> and the new mapping in the file. The function returns \<open>None\<close> and leaves
  the file missing, while lines 305-334, which no call reaches, would have given what
  the claim asks for; in the cycle of the run loop no channel is reached.
\<close>

theorem should_notify_changed_not_persisted:
  "should_notify [example_product] Missing = (None, Missing)
   \<and> compare_and_save True [example_product] Missing
       = (True, Stored (current_state_of [example_product]))
   \<and> run_cycle (default_config None None) example_world example_network
        ''2024-01-01 12:00:00 UTC'' Missing [] = (Inr (), Missing, [])"
proof -
  have a: "should_notify [example_product] Missing = (None, Missing)"
    by (simp add: should_notify_def)
  have "current_state_of [example_product] (product_id example_product)
          = Some (snapshot_of example_product)"
    by (simp add: current_state_of_def)
  then have "current_state_of [example_product] \<noteq> Map.empty"
    by (metis option.distinct(1))
  then have b: "compare_and_save True [example_product] Missing
       = (True, Stored (current_state_of [example_product]))"
    by (simp add: compare_and_save_changed load_state_def)
  have c: "check_nike_availability (default_config None None) example_world
             = Inr [example_product]"
    by code_simp
  have d: "run_cycle (default_config None None) example_world example_network
        ''2024-01-01 12:00:00 UTC'' Missing [] = (Inr (), Missing, [])"
    by (simp add: run_cycle_def c a truthy_def)
  from a b d show ?thesis by simp
qed

text \<open>
  Claim C2 at a concrete input: one product with the sizes 9 and 10. The claim asks
  for the "found" message. The function returns \<open>None\<close>; lines 282-298, which no call
  reaches, build a message that holds the two sizes joined by a comma.
\<close>

theorem format_notification_found_missing:
  "format_notification ''2024-01-01 12:00:00 UTC'' [example_product] = None
   \<and> py_in ''**Available Sizes:** 9, 10''
        (found_message ''2024-01-01 12:00:00 UTC'' [example_product])"
proof -
  have a: "format_notification ''2024-01-01 12:00:00 UTC'' [example_product] = None"
    by (simp add: format_notification_def)
  have b: "py_in ''**Available Sizes:** 9, 10''
        (found_message ''2024-01-01 12:00:00 UTC'' [example_product])"
    by code_simp
  from a b show ?thesis by simp
qed

text \<open>
  Claim C6. For the empty product list \<open>should_notify\<close> returns \<open>True\<close> whatever the state
  file holds, and leaves the file as it is.
\<close>

theorem should_notify_empty: "should_notify [] file = (Some True, file)"
  by (simp add: should_notify_def)

text \<open>
  Claim C7 at a concrete input: one product, and a state file that holds the current
  state of that product. The claim asks for the result \<open>False\<close> and an unchanged file. The
  function returns \<open>None\<close>, not \<open>False\<close>, without loading or comparing the state; lines
  305-334, which no call reaches, would have given \<open>False\<close> and left the file.
\<close>

theorem should_notify_unchanged_returns_none:
  "load_state (Stored (Map.empty(''af1-paris'' \<mapsto> example_snapshot)))
     = Stored (current_state_of [example_product])
   \<and> should_notify [example_product] (Stored (Map.empty(''af1-paris'' \<mapsto> example_snapshot)))
       = (None, Stored (Map.empty(''af1-paris'' \<mapsto> example_snapshot)))
   \<and> fst (should_notify [example_product]
            (Stored (Map.empty(''af1-paris'' \<mapsto> example_snapshot)))) \<noteq> Some False
   \<and> compare_and_save True [example_product]
        (Stored (Map.empty(''af1-paris'' \<mapsto> example_snapshot)))
       = (False, Stored (Map.empty(''af1-paris'' \<mapsto> example_snapshot)))"
proof -
  have i: "product_id example_product = ''af1-paris''" by code_simp
  have s: "snapshot_of example_product = example_snapshot" by code_simp
  have h: "load_state (Stored (Map.empty(''af1-paris'' \<mapsto> example_snapshot)))
              = Stored (current_state_of [example_product])"
    by (simp add: load_state_def current_state_of_def i s)
  have a: "should_notify [example_product]
             (Stored (Map.empty(''af1-paris'' \<mapsto> example_snapshot)))
           = (None, Stored (Map.empty(''af1-paris'' \<mapsto> example_snapshot)))"
    by (simp add: should_notify_def)
  from h have c: "compare_and_save True [example_product]
        (Stored (Map.empty(''af1-paris'' \<mapsto> example_snapshot)))
       = (False, Stored (Map.empty(''af1-paris'' \<mapsto> example_snapshot)))"
    by (simp add: compare_and_save_unchanged)
  from h a c show ?thesis by simp
qed

end
